theory Spec2Isabelle
  imports Main "HOL-Library.Word" "HOL-Library.Signed_Division"
begin

unbundle bit_operations_syntax

section \<open>The HC-SR04 ultrasonic ranging driver (HCSR04.cpp)\<close>

text \<open>
  The driver is embedded for the board the repository targets, an AVR (Arduino Mega 2560):
  \<^verbatim>\<open>uint8_t\<close> is 8 bits, \<^verbatim>\<open>unsigned int\<close> is 16 bits, \<^verbatim>\<open>long\<close> is a signed 32-bit integer
  and \<^verbatim>\<open>unsigned long\<close> is 32 bits. The pin-change-interrupt registers that the non-blocking
  functions write exist on that family only. \<^verbatim>\<open>DEBUG\<close> is not defined, as in the source.
  The non-blocking functions are compiled when one of the \<^verbatim>\<open>USE_PIN_CHANGE_INTERRUPT_...\<close>
  symbols is defined; they are embedded as written.
\<close>

type_synonym u8 = "8 word"
type_synonym u16 = "16 word"
type_synonym u32 = "32 word"

subsection \<open>Unit conversions\<close>

text \<open>
  \<^verbatim>\<open>return (aDistanceMicros * 100L) / 5825;\<close>
  The 16-bit argument is converted to \<^verbatim>\<open>long\<close>; product and quotient are computed on signed
  32-bit integers, written here on \<open>int\<close> with C's truncating division. The value returned
  is converted back to \<^verbatim>\<open>unsigned int\<close>. Lemma \<open>centimeter_long_range\<close> below shows that the
  intermediate product never leaves the range of \<^verbatim>\<open>long\<close>.
\<close>

definition getCentimeterFromUSMicroSeconds :: "u16 \<Rightarrow> u16" where
  "getCentimeterFromUSMicroSeconds aDistanceMicros =
     word_of_int ((uint aDistanceMicros * 100) sdiv 5825)"

text \<open>
  Line 164, in \<^verbatim>\<open>getUSDistanceAsCentiMeterWithCentimeterTimeout\<close>:
  \<^verbatim>\<open>unsigned int tTimeoutMicros = ((aTimeoutCentimeter * 233L) + 2) / 4;\<close>
  Again \<^verbatim>\<open>long\<close> arithmetic (the literal is \<^verbatim>\<open>233L\<close>); the assignment narrows the
  quotient to 16 bits.
\<close>

definition tTimeoutMicros_blocking :: "u16 \<Rightarrow> u16" where
  "tTimeoutMicros_blocking aTimeoutCentimeter =
     word_of_int (((uint aTimeoutCentimeter * 233) + 2) sdiv 4)"

text \<open>
  Line 263, in \<^verbatim>\<open>startUSDistanceAsCentiMeterWithCentimeterTimeoutNonBlocking\<close>:
  \<^verbatim>\<open>sTimeoutMicros = ((aTimeoutCentimeter * 233) + 2) / 4;\<close>
  Here the literal is the \<^verbatim>\<open>int\<close> 233, so the whole expression is evaluated in 16-bit
  \<^verbatim>\<open>unsigned int\<close> arithmetic: product and sum wrap modulo \<open>2 ^ 16\<close> before the division.
\<close>

definition sTimeoutMicros_nonblocking :: "u16 \<Rightarrow> u16" where
  "sTimeoutMicros_nonblocking aTimeoutCentimeter =
     ((aTimeoutCentimeter * 233) + 2) div 4"

text \<open>The conversions as the specification writes them, on natural numbers.\<close>

definition microsecondsToCentimeters :: "nat \<Rightarrow> nat" where
  "microsecondsToCentimeters durationMicros = (durationMicros * 100) div 5825"

definition centimetersToTimeoutMicros :: "nat \<Rightarrow> nat" where
  "centimetersToTimeoutMicros timeoutCentimeters = (timeoutCentimeters * 233 + 2) div 4"

subsection \<open>Driver state and hardware accesses\<close>

text \<open>
  Modelled from the spec: the header \<^verbatim>\<open>HCSR04.h\<close>, which defines the three mode constants, is
  not among the sources. The specification's data model gives the mode as the enumeration
  \<open>{Uninitialized, OnePin, TwoPin}\<close>; the constructors carry the names the source uses.
\<close>

datatype hcsr04_mode =
    HCSR04_MODE_UNITITIALIZED
  | HCSR04_MODE_USE_1_PIN
  | HCSR04_MODE_USE_2_PINS

datatype level = LOW | HIGH

datatype pin_direction = INPUT | OUTPUT

text \<open>
  Every call into the Arduino core that touches a pin or waits, and every write to one of
  the pin-change-interrupt registers, is recorded in the order in which the code performs it.
\<close>

datatype hw_access =
    DigitalWrite u8 level
  | PinMode u8 pin_direction
  | DelayMicroseconds nat
  | PulseInLong u8 level u32
  | WritePCMSK nat u8
  | WritePCICR u8
  | WritePCIFR u8

text \<open>
  The globals of \<^verbatim>\<open>HCSR04.cpp\<close>, the three interrupt registers (\<open>PCMSK\<close> is indexed by the
  number of the mask register, since there is one per port) and the log of accesses.
\<close>

record driver =
  sTriggerOutPin :: u8
  sEchoInPin :: u8
  sHCSR04Mode :: hcsr04_mode
  sUSDistanceCentimeter :: u16
  sUSPulseMicros :: u32
  sUSValueIsValid :: bool
  sMicrosAtStartOfPulse :: u32
  sTimeoutMicros :: u16
  PCMSK :: "nat \<Rightarrow> u8"
  PCICR :: u8
  PCIFR :: u8
  accesses :: "hw_access list"

text \<open>
  The pin-mapping macros of the Arduino core (\<^verbatim>\<open>pins_arduino.h\<close>) belong to the board
  package, not to this repository; the model takes them as a parameter.
\<close>

record board =
  digitalPinToPCMSK :: "u8 \<Rightarrow> nat"
  digitalPinToPCMSKbit :: "u8 \<Rightarrow> nat"
  digitalPinToPCICRbit :: "u8 \<Rightarrow> nat"

text \<open>\<^verbatim>\<open>#define bit(b) (1UL << (b))\<close>\<close>

definition bit_macro :: "nat \<Rightarrow> u32" where
  "bit_macro b = push_bit b 1"

definition digitalWrite :: "u8 \<Rightarrow> level \<Rightarrow> driver \<Rightarrow> driver" where
  "digitalWrite pin val s = s\<lparr>accesses := accesses s @ [DigitalWrite pin val]\<rparr>"

definition pinMode :: "u8 \<Rightarrow> pin_direction \<Rightarrow> driver \<Rightarrow> driver" where
  "pinMode pin dir s = s\<lparr>accesses := accesses s @ [PinMode pin dir]\<rparr>"

definition delayMicroseconds :: "nat \<Rightarrow> driver \<Rightarrow> driver" where
  "delayMicroseconds us s = s\<lparr>accesses := accesses s @ [DelayMicroseconds us]\<rparr>"

definition write_PCMSK :: "nat \<Rightarrow> u8 \<Rightarrow> driver \<Rightarrow> driver" where
  "write_PCMSK r v s =
     s\<lparr>PCMSK := (PCMSK s)(r := v), accesses := accesses s @ [WritePCMSK r v]\<rparr>"

definition write_PCICR :: "u8 \<Rightarrow> driver \<Rightarrow> driver" where
  "write_PCICR v s = s\<lparr>PCICR := v, accesses := accesses s @ [WritePCICR v]\<rparr>"

definition write_PCIFR :: "u8 \<Rightarrow> driver \<Rightarrow> driver" where
  "write_PCIFR v s = s\<lparr>PCIFR := v, accesses := accesses s @ [WritePCIFR v]\<rparr>"

subsection \<open>Initialisation\<close>

definition initUSDistancePins :: "u8 \<Rightarrow> u8 \<Rightarrow> driver \<Rightarrow> driver" where
  "initUSDistancePins aTriggerOutPin aEchoInPin s =
     (let s1 = s\<lparr>sTriggerOutPin := aTriggerOutPin\<rparr> in
      if aEchoInPin = 0 then s1\<lparr>sHCSR04Mode := HCSR04_MODE_USE_1_PIN\<rparr>
      else
        (let s2 = s1\<lparr>sEchoInPin := aEchoInPin\<rparr>;
             s3 = pinMode aTriggerOutPin OUTPUT s2;
             s4 = pinMode (sEchoInPin s3) INPUT s3
         in s4\<lparr>sHCSR04Mode := HCSR04_MODE_USE_2_PINS\<rparr>))"

definition initUSDistancePin :: "u8 \<Rightarrow> driver \<Rightarrow> driver" where
  "initUSDistancePin aTriggerOutEchoInPin s =
     s\<lparr>sTriggerOutPin := aTriggerOutEchoInPin, sHCSR04Mode := HCSR04_MODE_USE_1_PIN\<rparr>"

subsection \<open>Blocking measurement\<close>

text \<open>
  \<^verbatim>\<open>unsigned int getUSDistance(unsigned int aTimeoutMicros)\<close>, the branch compiled for the
  AVR target (\<^verbatim>\<open>pulseInLong\<close>). What the echo pin shows is the environment's choice: the first
  argument stands for the Arduino core's \<^verbatim>\<open>pulseInLong\<close>, whose \<^verbatim>\<open>unsigned long\<close> result the
  function narrows to its 16-bit return type.
\<close>

definition getUSDistance ::
  "(u8 \<Rightarrow> level \<Rightarrow> u32 \<Rightarrow> u32) \<Rightarrow> u16 \<Rightarrow> driver \<Rightarrow> u16 \<times> driver" where
  "getUSDistance pulseInLong aTimeoutMicros s =
     (if sHCSR04Mode s = HCSR04_MODE_UNITITIALIZED then (0, s)
      else
        (let s1 = digitalWrite (sTriggerOutPin s) HIGH s;
             s2 = (if sHCSR04Mode s1 = HCSR04_MODE_USE_1_PIN
                   then pinMode (sTriggerOutPin s1) OUTPUT s1 else s1);
             s3 = delayMicroseconds 10 s2;
             s4 = digitalWrite (sTriggerOutPin s3) LOW s3;
             (tEchoInPin, s5) =
               (if sHCSR04Mode s4 = HCSR04_MODE_USE_1_PIN
                then (sTriggerOutPin s4,
                      pinMode (sTriggerOutPin s4) INPUT (delayMicroseconds 20 s4))
                else (sEchoInPin s4, s4));
             tUSPulseMicros = pulseInLong tEchoInPin HIGH (ucast aTimeoutMicros);
             s6 = s5\<lparr>accesses := accesses s5 @
                       [PulseInLong tEchoInPin HIGH (ucast aTimeoutMicros)]\<rparr>
         in (ucast tUSPulseMicros, s6)))"

definition getUSDistanceAsCentiMeter ::
  "(u8 \<Rightarrow> level \<Rightarrow> u32 \<Rightarrow> u32) \<Rightarrow> u16 \<Rightarrow> driver \<Rightarrow> u16 \<times> driver" where
  "getUSDistanceAsCentiMeter pulseInLong aTimeoutMicros s =
     (let (d, s') = getUSDistance pulseInLong aTimeoutMicros s
      in (getCentimeterFromUSMicroSeconds d, s'))"

definition getUSDistanceAsCentiMeterWithCentimeterTimeout ::
  "(u8 \<Rightarrow> level \<Rightarrow> u32 \<Rightarrow> u32) \<Rightarrow> u16 \<Rightarrow> driver \<Rightarrow> u16 \<times> driver" where
  "getUSDistanceAsCentiMeterWithCentimeterTimeout pulseInLong aTimeoutCentimeter s =
     (let tTimeoutMicros = tTimeoutMicros_blocking aTimeoutCentimeter
      in getUSDistanceAsCentiMeter pulseInLong tTimeoutMicros s)"

subsection \<open>Non-blocking measurement\<close>

text \<open>
  \<^verbatim>\<open>void handlePCInterrupt(uint8_t aPortState)\<close>; the second argument is the value that
  \<^verbatim>\<open>micros()\<close> returns inside the handler.
\<close>

definition handlePCInterrupt :: "u8 \<Rightarrow> u32 \<Rightarrow> driver \<Rightarrow> driver" where
  "handlePCInterrupt aPortState micros s =
     (if 0 < aPortState then s\<lparr>sMicrosAtStartOfPulse := micros\<rparr>
      else s\<lparr>sUSPulseMicros := micros - sMicrosAtStartOfPulse s,
             sUSValueIsValid := True\<rparr>)"

text \<open>
  The three interrupt service routines (\<^verbatim>\<open>PCINT2_vect\<close>, \<^verbatim>\<open>PCINT0_vect\<close>, \<^verbatim>\<open>PCINT1_vect\<close>) have
  the same body: read the port of the echo pin, mask the pin's bit, call the handler. The
  second argument is the content of the port input register.
\<close>

definition ISR_PCINT :: "board \<Rightarrow> u8 \<Rightarrow> u32 \<Rightarrow> driver \<Rightarrow> driver" where
  "ISR_PCINT bd portInput micros s =
     (let tPortState =
            ucast (ucast portInput AND bit_macro (digitalPinToPCMSKbit bd (sEchoInPin s)))
      in handlePCInterrupt tPortState micros s)"

text \<open>
  \<^verbatim>\<open>void startUSDistanceAsCentiMeterWithCentimeterTimeoutNonBlocking(unsigned int)\<close>.
  A compound assignment such as \<^verbatim>\<open>PCICR |= bit(n)\<close> widens the 8-bit register to the
  \<^verbatim>\<open>unsigned long\<close> of \<^verbatim>\<open>bit\<close> and narrows the result on the store.
\<close>

definition startUSDistanceAsCentiMeterWithCentimeterTimeoutNonBlocking ::
  "board \<Rightarrow> u16 \<Rightarrow> driver \<Rightarrow> driver" where
  "startUSDistanceAsCentiMeterWithCentimeterTimeoutNonBlocking bd aTimeoutCentimeter s =
     (let s1 = digitalWrite (sTriggerOutPin s) HIGH s;
          s2 = s1\<lparr>sUSValueIsValid := False\<rparr>;
          s3 = s2\<lparr>sTimeoutMicros := sTimeoutMicros_nonblocking aTimeoutCentimeter\<rparr>;
          r = digitalPinToPCMSK bd (sEchoInPin s3);
          s4 = write_PCMSK r
                 (ucast (ucast (PCMSK s3 r) OR
                    bit_macro (digitalPinToPCMSKbit bd (sEchoInPin s3)))) s3;
          s5 = write_PCICR
                 (ucast (ucast (PCICR s4) OR
                    bit_macro (digitalPinToPCICRbit bd (sEchoInPin s4)))) s4;
          s6 = write_PCIFR
                 (ucast (ucast (PCIFR s5) OR
                    bit_macro (digitalPinToPCICRbit bd (sEchoInPin s5)))) s5;
          s7 = s6\<lparr>sUSPulseMicros := 0\<rparr>;
          s8 = s7\<lparr>sMicrosAtStartOfPulse := 0\<rparr>;
          s9 = delayMicroseconds 10 s8
      in digitalWrite (sTriggerOutPin s9) LOW s9)"

text \<open>
  \<^verbatim>\<open>bool isUSDistanceMeasureFinished()\<close>; the second argument is the value that \<^verbatim>\<open>micros()\<close>
  returns when the timeout branch reads the clock. The function is modelled as one step:
  an interrupt that arrives in the middle of it is an event before or after it.
\<close>

definition isUSDistanceMeasureFinished :: "board \<Rightarrow> u32 \<Rightarrow> driver \<Rightarrow> bool \<times> driver" where
  "isUSDistanceMeasureFinished bd micros s =
     (if sUSValueIsValid s
      then (True, s\<lparr>sUSDistanceCentimeter :=
                       getCentimeterFromUSMicroSeconds (ucast (sUSPulseMicros s))\<rparr>)
      else if sMicrosAtStartOfPulse s \<noteq> 0
      then
        (if ucast (sTimeoutMicros s) \<le> micros - sMicrosAtStartOfPulse s
         then
           (let r = digitalPinToPCMSK bd (sEchoInPin s)
            in (True, write_PCMSK r
                        (ucast (ucast (PCMSK s r) AND
                           NOT (bit_macro (digitalPinToPCMSKbit bd (sEchoInPin s))))) s))
         else (False, s))
      else (False, s))"

subsection \<open>Runs of the non-blocking state machine\<close>

text \<open>
  Between two calls of the start function the main flow polls and the handler sees edges.
  \<open>Poll m\<close> is a call of \<^verbatim>\<open>isUSDistanceMeasureFinished\<close> with clock reading \<open>m\<close>;
  \<open>Edge p m\<close> is the handler called with port state \<open>p\<close> at clock reading \<open>m\<close>. Whether the
  hardware delivers an edge is a matter of the mask register; \<open>pin_change_enabled\<close> below
  reads it.
\<close>

datatype nb_event = Poll u32 | Edge u8 u32

fun run :: "board \<Rightarrow> nb_event list \<Rightarrow> driver \<Rightarrow> driver" where
  "run bd [] s = s"
| "run bd (Poll m # evs) s = run bd evs (snd (isUSDistanceMeasureFinished bd m s))"
| "run bd (Edge p m # evs) s = run bd evs (handlePCInterrupt p m s)"

text \<open>What each poll of a run reports: its return value and the centimeter global after it.\<close>

fun polls :: "board \<Rightarrow> nb_event list \<Rightarrow> driver \<Rightarrow> (bool \<times> u16) list" where
  "polls bd [] s = []"
| "polls bd (Poll m # evs) s =
     (let (done, s') = isUSDistanceMeasureFinished bd m s
      in (done, sUSDistanceCentimeter s') # polls bd evs s')"
| "polls bd (Edge p m # evs) s = polls bd evs (handlePCInterrupt p m s)"

fun is_falling_edge :: "nb_event \<Rightarrow> bool" where
  "is_falling_edge (Edge p m) = (p = 0)"
| "is_falling_edge (Poll m) = False"

text \<open>The pin's edge interrupt is enabled when its bit in its mask register is set.\<close>

definition pin_change_enabled :: "board \<Rightarrow> u8 \<Rightarrow> driver \<Rightarrow> bool" where
  "pin_change_enabled bd pin s =
     bit (PCMSK s (digitalPinToPCMSK bd pin)) (digitalPinToPCMSKbit bd pin)"

subsection \<open>Observations on access sequences\<close>

text \<open>The accesses an operation added to the log.\<close>

definition new_accesses :: "driver \<Rightarrow> driver \<Rightarrow> hw_access list" where
  "new_accesses s s' = drop (length (accesses s)) (accesses s')"

text \<open>
  \<open>delay_until b as\<close> adds up the delays in \<open>as\<close> before the first occurrence of \<open>b\<close>;
  \<open>delay_between a b as\<close> is the time waited between the first \<open>a\<close> and the next \<open>b\<close>.
\<close>

fun delay_of :: "hw_access \<Rightarrow> nat" where
  "delay_of (DelayMicroseconds us) = us"
| "delay_of _ = 0"

fun delay_until :: "hw_access \<Rightarrow> hw_access list \<Rightarrow> nat option" where
  "delay_until b [] = None"
| "delay_until b (x # xs) =
     (if x = b then Some 0
      else (case delay_until b xs of None \<Rightarrow> None | Some d \<Rightarrow> Some (delay_of x + d)))"

fun delay_between :: "hw_access \<Rightarrow> hw_access \<Rightarrow> hw_access list \<Rightarrow> nat option" where
  "delay_between a b [] = None"
| "delay_between a b (x # xs) =
     (if x = a then delay_until b xs else delay_between a b xs)"

text \<open>
  \<open>occurs_before a b as\<close>: \<open>a\<close> occurs in \<open>as\<close>, no \<open>b\<close> occurs before the first \<open>a\<close>, and
  a \<open>b\<close> follows it.
\<close>

fun occurs_before :: "hw_access \<Rightarrow> hw_access \<Rightarrow> hw_access list \<Rightarrow> bool" where
  "occurs_before a b [] = False"
| "occurs_before a b (x # xs) =
     (if x = b then False
      else if x = a then b \<in> set xs
      else occurs_before a b xs)"

subsection \<open>Sample inputs\<close>

text \<open>The globals as C initialises them at program start, with the registers cleared.\<close>

definition power_on :: driver where
  "power_on =
     \<lparr>sTriggerOutPin = 0, sEchoInPin = 0, sHCSR04Mode = HCSR04_MODE_UNITITIALIZED,
      sUSDistanceCentimeter = 0, sUSPulseMicros = 0, sUSValueIsValid = False,
      sMicrosAtStartOfPulse = 0, sTimeoutMicros = 0,
      PCMSK = (\<lambda>_. 0), PCICR = 0, PCIFR = 0, accesses = []\<rparr>"

text \<open>
  A pin mapping of the kind the source's comments describe: pins D0 to D7 on mask
  register 2 (group bit 2), D8 to D13 on mask register 0, the analog pins on register 1.
\<close>

definition sample_board :: board where
  "sample_board =
     \<lparr>digitalPinToPCMSK = (\<lambda>p. if p \<le> 7 then 2 else if p \<le> 13 then 0 else 1),
      digitalPinToPCMSKbit =
        (\<lambda>p. if p \<le> 7 then unat p else if p \<le> 13 then unat p - 8 else unat p - 14),
      digitalPinToPCICRbit = (\<lambda>p. if p \<le> 7 then 2 else if p \<le> 13 then 0 else 1)\<rparr>"

text \<open>No echo ever: \<^verbatim>\<open>pulseInLong\<close> times out and returns 0.\<close>

definition no_echo :: "u8 \<Rightarrow> level \<Rightarrow> u32 \<Rightarrow> u32" where
  "no_echo pin val timeout = 0"

text \<open>The sketch's wiring: \<^verbatim>\<open>initUSDistancePins(TRIGGER_OUT_PIN, ECHO_IN_PIN)\<close> with pins 5 and 4.\<close>

definition two_pin_ready :: driver where
  "two_pin_ready = initUSDistancePins 5 4 power_on"

definition one_pin_ready :: driver where
  "one_pin_ready = initUSDistancePin 5 power_on"

section \<open>Verification\<close>

subsection \<open>The conversions: arithmetic facts\<close>

lemma centimeter_long_range:
  "0 \<le> uint (x :: u16) * 100 \<and> uint x * 100 < 2 ^ 31"
proof -
  have "uint x < 2 ^ 16" using uint_bounded [of x] by simp
  then show ?thesis by simp
qed

lemma timeout_long_range:
  "0 \<le> uint (c :: u16) * 233 + 2 \<and> uint c * 233 + 2 < 2 ^ 31"
proof -
  have "uint c < 2 ^ 16" using uint_bounded [of c] by simp
  then show ?thesis by simp
qed

lemma sdiv_nonneg_eq_div:
  fixes k l :: int
  assumes "0 \<le> k" and "0 < l"
  shows "k sdiv l = k div l"
proof (cases "k = 0")
  case True
  then show ?thesis by simp
next
  case False
  with assms have "sgn k = 1" and "sgn l = 1" by simp_all
  with assms show ?thesis by (simp add: signed_divide_int_def)
qed

lemma unat_getCentimeterFromUSMicroSeconds:
  "unat (getCentimeterFromUSMicroSeconds x) = microsecondsToCentimeters (unat x)"
proof -
  have lt: "unat x < 2 ^ 16" using unsigned_less [of x, where 'a = nat] by simp
  have "(uint x * 100) sdiv 5825 = int ((unat x * 100) div 5825)"
    by (simp add: sdiv_nonneg_eq_div zdiv_int)
  then have "getCentimeterFromUSMicroSeconds x = of_nat ((unat x * 100) div 5825)"
    by (simp add: getCentimeterFromUSMicroSeconds_def)
  moreover have "(unat x * 100) div 5825 < 2 ^ 16" using lt by simp
  ultimately show ?thesis
    by (simp add: microsecondsToCentimeters_def unat_of_nat)
qed

lemma unat_tTimeoutMicros_blocking:
  "unat (tTimeoutMicros_blocking c) = centimetersToTimeoutMicros (unat c) mod 2 ^ 16"
proof -
  have "((uint c * 233) + 2) sdiv 4 = int ((unat c * 233 + 2) div 4)"
    by (simp add: sdiv_nonneg_eq_div zdiv_int)
  then have "tTimeoutMicros_blocking c = of_nat ((unat c * 233 + 2) div 4)"
    by (simp add: tTimeoutMicros_blocking_def)
  then show ?thesis
    by (simp add: centimetersToTimeoutMicros_def unat_of_nat)
qed

lemma unat_sTimeoutMicros_nonblocking:
  "unat (sTimeoutMicros_nonblocking c) = ((unat c * 233 + 2) mod 2 ^ 16) div 4"
  by (simp add: sTimeoutMicros_nonblocking_def unat_div unat_word_ariths mod_simps)

lemma conversions_roundtrip_nat:
  "microsecondsToCentimeters (centimetersToTimeoutMicros c) \<le> c \<and>
   c \<le> microsecondsToCentimeters (centimetersToTimeoutMicros c) + 1"
  unfolding microsecondsToCentimeters_def centimetersToTimeoutMicros_def by arith

lemma timeouts_agree_up_to_281:
  assumes "unat c \<le> 281"
  shows "sTimeoutMicros_nonblocking c = tTimeoutMicros_blocking c"
    and "unat (sTimeoutMicros_nonblocking c) = centimetersToTimeoutMicros (unat c)"
proof -
  have a: "unat (sTimeoutMicros_nonblocking c) = centimetersToTimeoutMicros (unat c)"
    using assms by (simp add: unat_sTimeoutMicros_nonblocking centimetersToTimeoutMicros_def)
  have "centimetersToTimeoutMicros (unat c) < 2 ^ 16"
    using assms by (simp add: centimetersToTimeoutMicros_def)
  then have b: "unat (tTimeoutMicros_blocking c) = centimetersToTimeoutMicros (unat c)"
    by (simp add: unat_tTimeoutMicros_blocking)
  from a b show "sTimeoutMicros_nonblocking c = tTimeoutMicros_blocking c"
    by (simp add: word_unat_eq_iff)
  from a show "unat (sTimeoutMicros_nonblocking c) = centimetersToTimeoutMicros (unat c)" .
qed

lemma narrow_small:
  "unat (d :: u32) < 2 ^ 16 \<Longrightarrow> unat (ucast d :: u16) = unat d"
  by (simp add: unsigned_ucast_eq take_bit_nat_eq_self)

subsection \<open>The operations, step by step\<close>

lemmas hw_defs = digitalWrite_def pinMode_def delayMicroseconds_def write_PCMSK_def
  write_PCICR_def write_PCIFR_def

lemma getUSDistance_uninitialized:
  "sHCSR04Mode s = HCSR04_MODE_UNITITIALIZED \<Longrightarrow> getUSDistance pil t s = (0, s)"
  by (simp add: getUSDistance_def)

lemma getUSDistance_one_pin:
  assumes "sHCSR04Mode s = HCSR04_MODE_USE_1_PIN"
  shows "new_accesses s (snd (getUSDistance pil t s)) =
    [DigitalWrite (sTriggerOutPin s) HIGH, PinMode (sTriggerOutPin s) OUTPUT,
     DelayMicroseconds 10, DigitalWrite (sTriggerOutPin s) LOW, DelayMicroseconds 20,
     PinMode (sTriggerOutPin s) INPUT, PulseInLong (sTriggerOutPin s) HIGH (ucast t)]"
  using assms by (simp add: getUSDistance_def new_accesses_def Let_def hw_defs)

lemma getUSDistance_two_pins:
  assumes "sHCSR04Mode s = HCSR04_MODE_USE_2_PINS"
  shows "new_accesses s (snd (getUSDistance pil t s)) =
    [DigitalWrite (sTriggerOutPin s) HIGH, DelayMicroseconds 10,
     DigitalWrite (sTriggerOutPin s) LOW, PulseInLong (sEchoInPin s) HIGH (ucast t)]"
  using assms by (simp add: getUSDistance_def new_accesses_def Let_def hw_defs)

lemma snd_getUSDistanceAsCentiMeter:
  "snd (getUSDistanceAsCentiMeter pil t s) = snd (getUSDistance pil t s)"
  by (simp add: getUSDistanceAsCentiMeter_def split: prod.split)

lemma snd_getUSDistanceAsCentiMeterWithCentimeterTimeout:
  "snd (getUSDistanceAsCentiMeterWithCentimeterTimeout pil c s) =
   snd (getUSDistance pil (tTimeoutMicros_blocking c) s)"
  by (simp add: getUSDistanceAsCentiMeterWithCentimeterTimeout_def
      snd_getUSDistanceAsCentiMeter)

lemma start_fields:
  "sUSValueIsValid (startUSDistanceAsCentiMeterWithCentimeterTimeoutNonBlocking bd c s) = False"
  "sMicrosAtStartOfPulse (startUSDistanceAsCentiMeterWithCentimeterTimeoutNonBlocking bd c s) = 0"
  "sUSPulseMicros (startUSDistanceAsCentiMeterWithCentimeterTimeoutNonBlocking bd c s) = 0"
  "sTimeoutMicros (startUSDistanceAsCentiMeterWithCentimeterTimeoutNonBlocking bd c s)
     = sTimeoutMicros_nonblocking c"
  "sEchoInPin (startUSDistanceAsCentiMeterWithCentimeterTimeoutNonBlocking bd c s)
     = sEchoInPin s"
  "sUSDistanceCentimeter (startUSDistanceAsCentiMeterWithCentimeterTimeoutNonBlocking bd c s)
     = sUSDistanceCentimeter s"
  by (simp_all add: startUSDistanceAsCentiMeterWithCentimeterTimeoutNonBlocking_def
      Let_def hw_defs)

lemma poll_after_start:
  "isUSDistanceMeasureFinished bd m
     (startUSDistanceAsCentiMeterWithCentimeterTimeoutNonBlocking bd c s)
   = (False, startUSDistanceAsCentiMeterWithCentimeterTimeoutNonBlocking bd c s)"
  by (simp add: isUSDistanceMeasureFinished_def start_fields)

lemma poll_valid:
  "sUSValueIsValid s \<Longrightarrow> isUSDistanceMeasureFinished bd m s =
     (True, s\<lparr>sUSDistanceCentimeter :=
                getCentimeterFromUSMicroSeconds (ucast (sUSPulseMicros s))\<rparr>)"
  by (simp add: isUSDistanceMeasureFinished_def)

lemma handle_rising:
  "0 < p \<Longrightarrow> handlePCInterrupt p m s = s\<lparr>sMicrosAtStartOfPulse := m\<rparr>"
  by (simp add: handlePCInterrupt_def)

lemma handle_falling:
  "handlePCInterrupt 0 m s =
     s\<lparr>sUSPulseMicros := m - sMicrosAtStartOfPulse s, sUSValueIsValid := True\<rparr>"
  by (simp add: handlePCInterrupt_def)

lemma ISR_pin_high:
  assumes "digitalPinToPCMSKbit bd (sEchoInPin s) < 8"
    and "bit portInput (digitalPinToPCMSKbit bd (sEchoInPin s))"
  shows "ISR_PCINT bd portInput m s = s\<lparr>sMicrosAtStartOfPulse := m\<rparr>"
proof -
  let ?b = "digitalPinToPCMSKbit bd (sEchoInPin s)"
  let ?p = "ucast ((ucast portInput :: u32) AND bit_macro ?b) :: u8"
  have "bit ?p ?b"
    using assms by (simp add: bit_macro_def bit_simps)
  then have "?p \<noteq> 0" by auto
  then have "0 < ?p" by (simp add: word_neq_0_conv)
  then show ?thesis by (simp add: ISR_PCINT_def handle_rising)
qed

lemma ISR_pin_low:
  assumes "\<not> bit portInput (digitalPinToPCMSKbit bd (sEchoInPin s))"
  shows "ISR_PCINT bd portInput m s =
           s\<lparr>sUSPulseMicros := m - sMicrosAtStartOfPulse s, sUSValueIsValid := True\<rparr>"
proof -
  let ?b = "digitalPinToPCMSKbit bd (sEchoInPin s)"
  have "ucast ((ucast portInput :: u32) AND bit_macro ?b) = (0 :: u8)"
    using assms by (intro bit_eqI) (auto simp add: bit_macro_def bit_simps)
  then show ?thesis by (simp add: ISR_PCINT_def handle_falling)
qed

text \<open>Without a rising edge the poll function does not look at the clock.\<close>

lemma polls_without_edge:
  "\<not> sUSValueIsValid s \<Longrightarrow> sMicrosAtStartOfPulse s = 0 \<Longrightarrow>
     polls bd (map Poll ms) s = map (\<lambda>m. (False, sUSDistanceCentimeter s)) ms"
  by (induction ms) (simp_all add: isUSDistanceMeasureFinished_def)

lemma mask_bit_cleared:
  "\<not> bit (ucast ((ucast (v :: u8) :: u32) AND NOT (bit_macro b)) :: u8) b"
  by (simp add: bit_macro_def bit_simps)

text \<open>
  Once the validity flag is set, neither a poll nor an edge clears it, and neither writes
  an interrupt register.
\<close>

lemma run_keeps_valid:
  "sUSValueIsValid s \<Longrightarrow>
     sUSValueIsValid (run bd evs s) \<and> PCMSK (run bd evs s) = PCMSK s \<and>
     PCICR (run bd evs s) = PCICR s"
proof (induction evs arbitrary: s)
  case Nil
  then show ?case by simp
next
  case (Cons e evs)
  show ?case
  proof (cases e)
    case (Poll m)
    with Cons.prems Cons.IH [of "snd (isUSDistanceMeasureFinished bd m s)"]
    show ?thesis by (simp add: poll_valid)
  next
    case (Edge p m)
    with Cons.prems Cons.IH [of "handlePCInterrupt p m s"]
    show ?thesis by (simp add: handlePCInterrupt_def)
  qed
qed

lemma polls_all_done:
  "sUSValueIsValid s \<Longrightarrow> \<forall>r \<in> set (polls bd evs s). fst r"
proof (induction evs arbitrary: s)
  case Nil
  then show ?case by simp
next
  case (Cons e evs)
  show ?case
  proof (cases e)
    case (Poll m)
    with Cons.prems Cons.IH [of "snd (isUSDistanceMeasureFinished bd m s)"]
    show ?thesis by (simp add: poll_valid)
  next
    case (Edge p m)
    with Cons.prems Cons.IH [of "handlePCInterrupt p m s"]
    show ?thesis by (simp add: handlePCInterrupt_def)
  qed
qed

lemma polls_same_result:
  "sUSValueIsValid s \<Longrightarrow> \<forall>e \<in> set evs. \<not> is_falling_edge e \<Longrightarrow>
   \<forall>r \<in> set (polls bd evs s).
      r = (True, getCentimeterFromUSMicroSeconds (ucast (sUSPulseMicros s)))"
proof (induction evs arbitrary: s)
  case Nil
  then show ?case by simp
next
  case (Cons e evs)
  show ?case
  proof (cases e)
    case (Poll m)
    with Cons.prems Cons.IH [of "snd (isUSDistanceMeasureFinished bd m s)"]
    show ?thesis by (simp add: poll_valid)
  next
    case (Edge p m)
    with Cons.prems have "p \<noteq> 0" by simp
    then have "0 < p" by (simp add: word_neq_0_conv)
    with Edge Cons.prems Cons.IH [of "handlePCInterrupt p m s"]
    show ?thesis by (simp add: handle_rising)
  qed
qed

text \<open>
  The timeout branch of the poll function does not write \<^verbatim>\<open>sUSDistanceCentimeter\<close>: after a
  timeout the global still holds whatever it held when the measurement was started.
\<close>

lemma timeout_leaves_centimeter_global:
  assumes "0 < p" and "t1 \<noteq> 0" and "ucast (sTimeoutMicros_nonblocking c) \<le> now - t1"
  shows "polls bd [Edge p t1, Poll now]
           (startUSDistanceAsCentiMeterWithCentimeterTimeoutNonBlocking bd c s)
         = [(True, sUSDistanceCentimeter s)]"
  using assms
  by (simp add: handle_rising isUSDistanceMeasureFinished_def start_fields Let_def
      write_PCMSK_def)

subsection \<open>Claims about the conversions\<close>

text \<open>
  C6. The anchor values of the two conversions: 0 microseconds are 0 centimeters and 5825
  microseconds are 100 centimeters; a timeout of 100 centimeters is 5825 microseconds and
  a timeout of 0 centimeters is 0 microseconds. The timeout values hold for the expression
  of the blocking function and for the one of the non-blocking start function alike.
\<close>

theorem conversion_anchors:
  "getCentimeterFromUSMicroSeconds 0 = 0 \<and>
   getCentimeterFromUSMicroSeconds 5825 = 100 \<and>
   tTimeoutMicros_blocking 100 = 5825 \<and>
   tTimeoutMicros_blocking 0 = 0 \<and>
   sTimeoutMicros_nonblocking 100 = 5825 \<and>
   sTimeoutMicros_nonblocking 0 = 0"
  by (simp add: getCentimeterFromUSMicroSeconds_def tTimeoutMicros_blocking_def
      sTimeoutMicros_nonblocking_def signed_divide_int_def)

text \<open>
  C5. For every timeout \<open>c\<close> from 1 to 1000 centimeters, converting \<open>c\<close> to microseconds as
  the blocking function does and converting the result back to centimeters gives a value
  that differs from \<open>c\<close> by at most 1.
\<close>

theorem conversions_approximate_inverses:
  assumes "1 \<le> unat c" and "unat c \<le> 1000"
  shows "\<bar>int (unat (getCentimeterFromUSMicroSeconds (tTimeoutMicros_blocking c)))
           - int (unat c)\<bar> \<le> 1"
proof -
  have "centimetersToTimeoutMicros (unat c) < 2 ^ 16"
    using assms by (simp add: centimetersToTimeoutMicros_def)
  then have "unat (tTimeoutMicros_blocking c) = centimetersToTimeoutMicros (unat c)"
    by (simp add: unat_tTimeoutMicros_blocking)
  then have "unat (getCentimeterFromUSMicroSeconds (tTimeoutMicros_blocking c))
      = microsecondsToCentimeters (centimetersToTimeoutMicros (unat c))"
    by (simp add: unat_getCentimeterFromUSMicroSeconds)
  with conversions_roundtrip_nat [of "unat c"] show ?thesis by linarith
qed

theorem conversions_approximate_inverses_witness:
  "1 \<le> unat (300 :: u16) \<and> unat (300 :: u16) \<le> 1000 \<and>
   \<bar>int (unat (getCentimeterFromUSMicroSeconds (tTimeoutMicros_blocking 300)))
      - int (unat (300 :: u16))\<bar> \<le> 1"
  using conversions_approximate_inverses [of 300] by simp

subsection \<open>Claims about the blocking measurement\<close>

text \<open>
  C2, the non-blocking start function. It never reads the mode: called on the
  uninitialised driver it writes the trigger pin and all three interrupt registers.
\<close>

theorem uninitialized_nonblocking_start_counterexample:
  "sHCSR04Mode power_on = HCSR04_MODE_UNITITIALIZED \<and>
   new_accesses power_on
     (startUSDistanceAsCentiMeterWithCentimeterTimeoutNonBlocking sample_board 100 power_on)
   = [DigitalWrite 0 HIGH, WritePCMSK 2 1, WritePCICR 4, WritePCIFR 4,
      DelayMicroseconds 10, DigitalWrite 0 LOW]"
  by (simp add: power_on_def sample_board_def new_accesses_def bit_macro_def
      startUSDistanceAsCentiMeterWithCentimeterTimeoutNonBlocking_def Let_def hw_defs)

text \<open>
  C2 (amended). For every timeout value, each blocking measurement operation
  (\<^verbatim>\<open>getUSDistance\<close>, \<^verbatim>\<open>getUSDistanceAsCentiMeter\<close>,
  \<^verbatim>\<open>getUSDistanceAsCentiMeterWithCentimeterTimeout\<close>) called while the mode is
  uninitialised returns 0 and leaves the whole state as it was: no pin write, no pin-mode
  change, no register write, no delay is added to the log of accesses.
\<close>

theorem uninitialized_blocking_returns_zero:
  assumes "sHCSR04Mode s = HCSR04_MODE_UNITITIALIZED"
  shows "getUSDistance pil t s = (0, s) \<and>
         getUSDistanceAsCentiMeter pil t s = (0, s) \<and>
         getUSDistanceAsCentiMeterWithCentimeterTimeout pil c s = (0, s)"
  using assms
  by (simp add: getUSDistance_uninitialized getUSDistanceAsCentiMeter_def
      getUSDistanceAsCentiMeterWithCentimeterTimeout_def getCentimeterFromUSMicroSeconds_def)

theorem uninitialized_blocking_returns_zero_witness:
  "sHCSR04Mode power_on = HCSR04_MODE_UNITITIALIZED \<and>
   getUSDistance no_echo 17475 power_on = (0, power_on) \<and>
   getUSDistanceAsCentiMeter no_echo 17475 power_on = (0, power_on) \<and>
   getUSDistanceAsCentiMeterWithCentimeterTimeout no_echo 300 power_on = (0, power_on)"
proof -
  have h: "sHCSR04Mode power_on = HCSR04_MODE_UNITITIALIZED"
    by (simp add: power_on_def)
  show ?thesis
    using h uninitialized_blocking_returns_zero [OF h, of no_echo 17475 300] by simp
qed

text \<open>
  C7, one-pin mode at pin 5. Between the write that raises the pin and the write that
  lowers it the code waits 10 microseconds, not 20.
\<close>

theorem one_pin_high_hold_counterexample:
  "sHCSR04Mode one_pin_ready = HCSR04_MODE_USE_1_PIN \<and>
   delay_between (DigitalWrite 5 HIGH) (DigitalWrite 5 LOW)
     (new_accesses one_pin_ready (snd (getUSDistance no_echo 17475 one_pin_ready)))
   = Some 10 \<and>
   delay_between (DigitalWrite 5 HIGH) (DigitalWrite 5 LOW)
     (new_accesses one_pin_ready (snd (getUSDistance no_echo 17475 one_pin_ready)))
   \<noteq> Some 20"
  by (simp add: one_pin_ready_def initUSDistancePin_def power_on_def getUSDistance_def
      new_accesses_def Let_def hw_defs)

text \<open>
  C7 (amended). In every blocking measurement after initialisation, in one-pin mode as in
  two-pin mode, the trigger pin is held high for a delay of 10 microseconds before it is
  driven low. The 20 microsecond delay of one-pin mode comes after the pin has been driven
  low, before the pin is switched to input.
\<close>

theorem trigger_high_hold_is_10:
  assumes "sHCSR04Mode s \<noteq> HCSR04_MODE_UNITITIALIZED"
  shows "delay_between (DigitalWrite (sTriggerOutPin s) HIGH)
           (DigitalWrite (sTriggerOutPin s) LOW)
           (new_accesses s (snd (getUSDistance pil t s))) = Some 10 \<and>
         (sHCSR04Mode s = HCSR04_MODE_USE_1_PIN \<longrightarrow>
           delay_between (DigitalWrite (sTriggerOutPin s) LOW)
             (PinMode (sTriggerOutPin s) INPUT)
             (new_accesses s (snd (getUSDistance pil t s))) = Some 20)"
proof (cases "sHCSR04Mode s")
  case HCSR04_MODE_UNITITIALIZED
  with assms show ?thesis by simp
next
  case HCSR04_MODE_USE_1_PIN
  then show ?thesis by (simp add: getUSDistance_one_pin)
next
  case HCSR04_MODE_USE_2_PINS
  then show ?thesis by (simp add: getUSDistance_two_pins)
qed

theorem trigger_high_hold_is_10_witness:
  "sHCSR04Mode one_pin_ready \<noteq> HCSR04_MODE_UNITITIALIZED \<and>
   sHCSR04Mode one_pin_ready = HCSR04_MODE_USE_1_PIN \<and>
   delay_between (DigitalWrite (sTriggerOutPin one_pin_ready) HIGH)
     (DigitalWrite (sTriggerOutPin one_pin_ready) LOW)
     (new_accesses one_pin_ready (snd (getUSDistance no_echo 17475 one_pin_ready)))
   = Some 10 \<and>
   delay_between (DigitalWrite (sTriggerOutPin one_pin_ready) LOW)
     (PinMode (sTriggerOutPin one_pin_ready) INPUT)
     (new_accesses one_pin_ready (snd (getUSDistance no_echo 17475 one_pin_ready)))
   = Some 20"
proof -
  have m: "sHCSR04Mode one_pin_ready = HCSR04_MODE_USE_1_PIN"
    by (simp add: one_pin_ready_def initUSDistancePin_def)
  then have h: "sHCSR04Mode one_pin_ready \<noteq> HCSR04_MODE_UNITITIALIZED" by simp
  show ?thesis
    using m h trigger_high_hold_is_10 [OF h, of no_echo 17475] by simp
qed

text \<open>
  C8. In one-pin mode, in the access sequence of every blocking measurement, the write
  that drives the shared pin high comes strictly before the switch of that pin to output:
  no switch to output precedes the write, and the one switch to output follows it. This
  holds for \<^verbatim>\<open>getUSDistance\<close> and for the two functions that call it.
\<close>

theorem one_pin_high_before_output:
  assumes "sHCSR04Mode s = HCSR04_MODE_USE_1_PIN"
  shows "occurs_before (DigitalWrite (sTriggerOutPin s) HIGH)
           (PinMode (sTriggerOutPin s) OUTPUT)
           (new_accesses s (snd (getUSDistance pil t s))) \<and>
         occurs_before (DigitalWrite (sTriggerOutPin s) HIGH)
           (PinMode (sTriggerOutPin s) OUTPUT)
           (new_accesses s (snd (getUSDistanceAsCentiMeter pil t s))) \<and>
         occurs_before (DigitalWrite (sTriggerOutPin s) HIGH)
           (PinMode (sTriggerOutPin s) OUTPUT)
           (new_accesses s (snd (getUSDistanceAsCentiMeterWithCentimeterTimeout pil c s))) \<and>
         length (filter (\<lambda>a. a = PinMode (sTriggerOutPin s) OUTPUT)
           (new_accesses s (snd (getUSDistance pil t s)))) = 1"
  using assms
  by (simp add: snd_getUSDistanceAsCentiMeter
      snd_getUSDistanceAsCentiMeterWithCentimeterTimeout getUSDistance_one_pin)

theorem one_pin_high_before_output_witness:
  "sHCSR04Mode one_pin_ready = HCSR04_MODE_USE_1_PIN \<and>
   occurs_before (DigitalWrite (sTriggerOutPin one_pin_ready) HIGH)
     (PinMode (sTriggerOutPin one_pin_ready) OUTPUT)
     (new_accesses one_pin_ready (snd (getUSDistance no_echo 17475 one_pin_ready))) \<and>
   occurs_before (DigitalWrite (sTriggerOutPin one_pin_ready) HIGH)
     (PinMode (sTriggerOutPin one_pin_ready) OUTPUT)
     (new_accesses one_pin_ready
        (snd (getUSDistanceAsCentiMeterWithCentimeterTimeout no_echo 300 one_pin_ready)))"
proof -
  have h: "sHCSR04Mode one_pin_ready = HCSR04_MODE_USE_1_PIN"
    by (simp add: one_pin_ready_def initUSDistancePin_def)
  show ?thesis
    using h one_pin_high_before_output [OF h, of no_echo 17475 300] by simp
qed

subsection \<open>Claims about the timeout of the non-blocking start\<close>

text \<open>
  C3. At a timeout of 300 centimeters, the value the sketch passes to the blocking
  function, the non-blocking start function stores 1091 microseconds: its product
  \<open>300 * 233 = 69900\<close> wraps to 4364 in 16-bit arithmetic before 2 is added and the sum is
  divided by 4. The blocking function, whose literal is \<^verbatim>\<open>233L\<close>, computes 17475.
\<close>

theorem nonblocking_timeout_wraps_at_300:
  "sTimeoutMicros
     (startUSDistanceAsCentiMeterWithCentimeterTimeoutNonBlocking sample_board 300
        two_pin_ready) = 1091 \<and>
   tTimeoutMicros_blocking 300 = 17475 \<and>
   centimetersToTimeoutMicros 300 = 17475"
  by (simp add: start_fields sTimeoutMicros_nonblocking_def tTimeoutMicros_blocking_def
      centimetersToTimeoutMicros_def signed_divide_int_def)

subsection \<open>Claims about the non-blocking state machine\<close>

text \<open>
  C1, with no edge at all. After a start with a timeout of 100 centimeters (5825
  microseconds) every poll reports not-done, however far the clock has advanced, and the
  pin's interrupt stays enabled: the poll function looks at the clock only once a rising
  edge has stored a non-zero start timestamp.
\<close>

theorem no_edge_no_timeout_counterexample:
  "sTimeoutMicros
     (startUSDistanceAsCentiMeterWithCentimeterTimeoutNonBlocking sample_board 100
        two_pin_ready) = 5825 \<and>
   polls sample_board [Poll 5826, Poll 1000000, Poll 4000000000]
     (startUSDistanceAsCentiMeterWithCentimeterTimeoutNonBlocking sample_board 100
        two_pin_ready)
   = [(False, 0), (False, 0), (False, 0)] \<and>
   pin_change_enabled sample_board 4
     (run sample_board [Poll 5826, Poll 1000000, Poll 4000000000]
        (startUSDistanceAsCentiMeterWithCentimeterTimeoutNonBlocking sample_board 100
           two_pin_ready))"
  by (simp add: poll_after_start start_fields sTimeoutMicros_nonblocking_def)
    (simp add: startUSDistanceAsCentiMeterWithCentimeterTimeoutNonBlocking_def
      two_pin_ready_def initUSDistancePins_def power_on_def hw_defs Let_def
      pin_change_enabled_def sample_board_def bit_macro_def)

text \<open>
  C1 (amended). For every started non-blocking measurement, if the handler has seen a
  rising edge at a non-zero clock reading, no falling edge has arrived, and the clock has
  advanced since that reading by at least the stored timeout, the poll function returns
  done with the pin's edge interrupt disabled; the validity flag is still clear and the
  stored pulse duration is still 0. As long as no edge has arrived, every poll returns
  not-done, whatever the clock reads.
\<close>

theorem timeout_after_rising_edge:
  assumes "0 < p" and "t1 \<noteq> 0"
    and "ucast (sTimeoutMicros_nonblocking c) \<le> now - t1"
  shows "map fst (polls bd (map Poll ms)
           (startUSDistanceAsCentiMeterWithCentimeterTimeoutNonBlocking bd c s))
         = map (\<lambda>m. False) ms \<and>
         map fst (polls bd [Edge p t1, Poll now]
           (startUSDistanceAsCentiMeterWithCentimeterTimeoutNonBlocking bd c s)) = [True] \<and>
         \<not> pin_change_enabled bd (sEchoInPin s)
           (run bd [Edge p t1, Poll now]
             (startUSDistanceAsCentiMeterWithCentimeterTimeoutNonBlocking bd c s)) \<and>
         \<not> sUSValueIsValid
           (run bd [Edge p t1, Poll now]
             (startUSDistanceAsCentiMeterWithCentimeterTimeoutNonBlocking bd c s)) \<and>
         sUSPulseMicros
           (run bd [Edge p t1, Poll now]
             (startUSDistanceAsCentiMeterWithCentimeterTimeoutNonBlocking bd c s)) = 0"
proof -
  have "polls bd (map Poll ms)
          (startUSDistanceAsCentiMeterWithCentimeterTimeoutNonBlocking bd c s)
        = map (\<lambda>m. (False, sUSDistanceCentimeter s)) ms"
    using polls_without_edge
      [of "startUSDistanceAsCentiMeterWithCentimeterTimeoutNonBlocking bd c s" bd ms]
    by (simp add: start_fields)
  then have "map fst (polls bd (map Poll ms)
          (startUSDistanceAsCentiMeterWithCentimeterTimeoutNonBlocking bd c s))
        = map (\<lambda>m. False) ms"
    by (simp add: comp_def)
  with assms show ?thesis
    by (simp add: handle_rising isUSDistanceMeasureFinished_def start_fields Let_def
        pin_change_enabled_def write_PCMSK_def mask_bit_cleared)
qed

theorem timeout_after_rising_edge_witness:
  "(0 :: u8) < 16 \<and> (1000 :: u32) \<noteq> 0 \<and>
   ucast (sTimeoutMicros_nonblocking 100) \<le> (6825 :: u32) - 1000 \<and>
   map fst (polls sample_board [Edge 16 1000, Poll 6825]
     (startUSDistanceAsCentiMeterWithCentimeterTimeoutNonBlocking sample_board 100
        two_pin_ready)) = [True] \<and>
   \<not> pin_change_enabled sample_board (sEchoInPin two_pin_ready)
     (run sample_board [Edge 16 1000, Poll 6825]
       (startUSDistanceAsCentiMeterWithCentimeterTimeoutNonBlocking sample_board 100
          two_pin_ready))"
proof -
  have h1: "(0 :: u8) < 16" by simp
  have h2: "(1000 :: u32) \<noteq> 0" by simp
  have h3: "ucast (sTimeoutMicros_nonblocking 100) \<le> (6825 :: u32) - 1000"
    by (simp add: sTimeoutMicros_nonblocking_def)
  show ?thesis
    using h1 h2 h3
      timeout_after_rising_edge [OF h1 h2 h3, of sample_board "[]" two_pin_ready]
    by simp
qed

text \<open>
  C4, a pulse of 70000 microseconds. The handler stores the 32-bit difference 70000; the
  poll function passes it to the conversion through a 16-bit parameter, so 4464 is
  converted and the result is 76 centimeters, where \<open>70000 * 100 div 5825\<close> is 1201.
\<close>

theorem long_pulse_counterexample:
  "polls sample_board [Edge 16 1000, Edge 0 71000, Poll 72000]
     (startUSDistanceAsCentiMeterWithCentimeterTimeoutNonBlocking sample_board 100
        two_pin_ready) = [(True, 76)] \<and>
   microsecondsToCentimeters (unat (71000 - 1000 :: u32)) = 1201"
  by (simp add: handlePCInterrupt_def start_fields poll_valid microsecondsToCentimeters_def
      getCentimeterFromUSMicroSeconds_def signed_divide_int_def)

text \<open>
  C4 (amended). A poll right after the start, before any edge, returns not-done. After a
  rising edge at clock reading \<open>t1\<close> and a falling edge at \<open>t2\<close>, a poll returns done, and
  the centimeter result is the conversion of the low 16 bits of the 32-bit difference
  \<open>t2 - t1\<close>; whenever that difference is below 65536 microseconds the result is
  \<open>(t2 - t1) * 100 div 5825\<close>.
\<close>

theorem rising_then_falling_edge_result:
  assumes "0 < p"
  shows "map fst (polls bd [Poll m0]
           (startUSDistanceAsCentiMeterWithCentimeterTimeoutNonBlocking bd c s)) = [False] \<and>
         polls bd [Edge p t1, Edge 0 t2, Poll m]
           (startUSDistanceAsCentiMeterWithCentimeterTimeoutNonBlocking bd c s)
         = [(True, getCentimeterFromUSMicroSeconds (ucast (t2 - t1)))] \<and>
         (unat (t2 - t1) < 2 ^ 16 \<longrightarrow>
            map (\<lambda>r. (fst r, unat (snd r)))
              (polls bd [Edge p t1, Edge 0 t2, Poll m]
                (startUSDistanceAsCentiMeterWithCentimeterTimeoutNonBlocking bd c s))
            = [(True, microsecondsToCentimeters (unat (t2 - t1)))])"
  using assms
  by (simp add: handle_falling handle_rising start_fields poll_valid poll_after_start
      unat_getCentimeterFromUSMicroSeconds narrow_small)

theorem rising_then_falling_edge_result_witness:
  "(0 :: u8) < 16 \<and> unat ((6825 :: u32) - 1000) < 2 ^ 16 \<and>
   map fst (polls sample_board [Poll 500]
     (startUSDistanceAsCentiMeterWithCentimeterTimeoutNonBlocking sample_board 100
        two_pin_ready)) = [False] \<and>
   map (\<lambda>r. (fst r, unat (snd r)))
     (polls sample_board [Edge 16 1000, Edge 0 6825, Poll 7000]
       (startUSDistanceAsCentiMeterWithCentimeterTimeoutNonBlocking sample_board 100
          two_pin_ready))
   = [(True, 100)]"
proof -
  have h: "(0 :: u8) < 16" by simp
  have d: "unat ((6825 :: u32) - 1000) < 2 ^ 16" by simp
  have v: "getCentimeterFromUSMicroSeconds 5825 = 100"
    by (simp add: getCentimeterFromUSMicroSeconds_def signed_divide_int_def)
  show ?thesis
    using h d v
      rising_then_falling_edge_result
        [OF h, of sample_board 500 100 two_pin_ready 1000 6825 7000]
    by (simp del: polls.simps run.simps)
qed

text \<open>
  C9, a first falling edge at clock reading 1000100, just after the one second the sketch
  waits in its setup. The handler sets the flag and stores the 32-bit duration 1000100;
  the poll function passes it to the conversion through a 16-bit parameter, so 17060 is
  converted and the poll reports 292 centimeters, where \<open>1000100 * 100 div 5825\<close> is 17169.
\<close>

theorem falling_edge_first_long_uptime_counterexample:
  "sUSValueIsValid
     (run sample_board [Edge 0 1000100]
        (startUSDistanceAsCentiMeterWithCentimeterTimeoutNonBlocking sample_board 100
           two_pin_ready)) \<and>
   sUSPulseMicros
     (run sample_board [Edge 0 1000100]
        (startUSDistanceAsCentiMeterWithCentimeterTimeoutNonBlocking sample_board 100
           two_pin_ready)) = 1000100 \<and>
   polls sample_board [Edge 0 1000100, Poll 1000200]
     (startUSDistanceAsCentiMeterWithCentimeterTimeoutNonBlocking sample_board 100
        two_pin_ready) = [(True, 292)] \<and>
   microsecondsToCentimeters (unat (1000100 - 0 :: u32)) = 17169"
  by (simp add: handlePCInterrupt_def start_fields poll_valid microsecondsToCentimeters_def
      getCentimeterFromUSMicroSeconds_def signed_divide_int_def)

text \<open>
  C9 (amended). If the first edge the handler sees after the start is a falling edge (port
  state 0), the handler sets the validity flag and stores the current clock reading minus
  the cleared start timestamp 0 as the pulse duration. The next poll reports done, and the
  centimeter result is the conversion of the low 16 bits of that duration; whenever the
  clock reading is below 65536 microseconds the result is \<open>now * 100 div 5825\<close>.
\<close>

theorem falling_edge_first_completes:
  "sUSValueIsValid
     (run bd [Edge 0 now]
        (startUSDistanceAsCentiMeterWithCentimeterTimeoutNonBlocking bd c s)) \<and>
   sUSPulseMicros
     (run bd [Edge 0 now]
        (startUSDistanceAsCentiMeterWithCentimeterTimeoutNonBlocking bd c s)) = now - 0 \<and>
   polls bd [Edge 0 now, Poll m]
     (startUSDistanceAsCentiMeterWithCentimeterTimeoutNonBlocking bd c s)
   = [(True, getCentimeterFromUSMicroSeconds (ucast now))] \<and>
   (unat now < 2 ^ 16 \<longrightarrow>
      map (\<lambda>r. (fst r, unat (snd r)))
        (polls bd [Edge 0 now, Poll m]
          (startUSDistanceAsCentiMeterWithCentimeterTimeoutNonBlocking bd c s))
      = [(True, microsecondsToCentimeters (unat now))])"
  by (simp add: handle_falling start_fields poll_valid
      unat_getCentimeterFromUSMicroSeconds narrow_small)

theorem falling_edge_first_completes_witness:
  "unat (5825 :: u32) < 2 ^ 16 \<and>
   sUSValueIsValid
     (run sample_board [Edge 0 5825]
        (startUSDistanceAsCentiMeterWithCentimeterTimeoutNonBlocking sample_board 100
           two_pin_ready)) \<and>
   map (\<lambda>r. (fst r, unat (snd r)))
     (polls sample_board [Edge 0 5825, Poll 6000]
       (startUSDistanceAsCentiMeterWithCentimeterTimeoutNonBlocking sample_board 100
          two_pin_ready))
   = [(True, 100)]"
proof -
  have d: "unat (5825 :: u32) < 2 ^ 16" by simp
  have v: "getCentimeterFromUSMicroSeconds 5825 = 100"
    by (simp add: getCentimeterFromUSMicroSeconds_def signed_divide_int_def)
  show ?thesis
    using d v
      falling_edge_first_completes [of sample_board 5825 100 two_pin_ready 6000]
    by (simp del: polls.simps run.simps)
qed

text \<open>
  C10, a second pulse after completion. A first pulse of 5825 microseconds completes the
  measurement and a poll reports 100 centimeters. The interrupt is still enabled, so the
  handler also serves a second pulse of 583 microseconds; the next poll, still before any
  new start, reports 10 centimeters.
\<close>

theorem later_pulse_changes_result_counterexample:
  "sUSValueIsValid
     (run sample_board [Edge 16 1000, Edge 0 6825]
        (startUSDistanceAsCentiMeterWithCentimeterTimeoutNonBlocking sample_board 100
           two_pin_ready)) \<and>
   polls sample_board [Poll 7000, Edge 16 20000, Edge 0 20583, Poll 21000]
     (run sample_board [Edge 16 1000, Edge 0 6825]
        (startUSDistanceAsCentiMeterWithCentimeterTimeoutNonBlocking sample_board 100
           two_pin_ready))
   = [(True, 100), (True, 10)] \<and>
   pin_change_enabled sample_board 4
     (run sample_board [Edge 16 1000, Edge 0 6825, Poll 7000]
        (startUSDistanceAsCentiMeterWithCentimeterTimeoutNonBlocking sample_board 100
           two_pin_ready))"
  by (simp add: handlePCInterrupt_def start_fields poll_valid
      getCentimeterFromUSMicroSeconds_def signed_divide_int_def)
    (simp add: startUSDistanceAsCentiMeterWithCentimeterTimeoutNonBlocking_def
      two_pin_ready_def initUSDistancePins_def power_on_def hw_defs Let_def
      pin_change_enabled_def sample_board_def bit_macro_def)

text \<open>
  C10 (amended). Once the validity flag is set, whatever polls and edges follow before the
  next start: every poll returns done, the validity flag stays set and the interrupt
  registers keep their contents (the success branch of the poll function clears neither),
  and only the start function clears the flag. As long as the handler sees no further
  falling edge, every such poll reports the same centimeter result.
\<close>

theorem completed_measurement_stays_done:
  assumes "sUSValueIsValid s"
  shows "(\<forall>r \<in> set (polls bd evs s). fst r) \<and>
         sUSValueIsValid (run bd evs s) \<and>
         PCMSK (run bd evs s) = PCMSK s \<and>
         PCICR (run bd evs s) = PCICR s \<and>
         \<not> sUSValueIsValid
             (startUSDistanceAsCentiMeterWithCentimeterTimeoutNonBlocking bd c
                (run bd evs s)) \<and>
         ((\<forall>e \<in> set evs. \<not> is_falling_edge e) \<longrightarrow>
            (\<forall>r \<in> set (polls bd evs s).
               r = (True, getCentimeterFromUSMicroSeconds (ucast (sUSPulseMicros s)))))"
  using assms run_keeps_valid [of s bd evs] polls_all_done [of s bd evs]
    polls_same_result [of s evs bd]
  by (simp add: start_fields)

theorem completed_measurement_stays_done_witness:
  "sUSValueIsValid
     (run sample_board [Edge 16 1000, Edge 0 6825]
        (startUSDistanceAsCentiMeterWithCentimeterTimeoutNonBlocking sample_board 100
           two_pin_ready)) \<and>
   \<not> is_falling_edge (Poll 7000) \<and> \<not> is_falling_edge (Edge 16 20000) \<and>
   \<not> is_falling_edge (Poll 21000) \<and>
   polls sample_board [Poll 7000, Edge 16 20000, Poll 21000]
     (run sample_board [Edge 16 1000, Edge 0 6825]
        (startUSDistanceAsCentiMeterWithCentimeterTimeoutNonBlocking sample_board 100
           two_pin_ready))
   = [(True, 100), (True, 100)] \<and>
   sUSValueIsValid
     (run sample_board [Poll 7000, Edge 16 20000, Poll 21000]
        (run sample_board [Edge 16 1000, Edge 0 6825]
           (startUSDistanceAsCentiMeterWithCentimeterTimeoutNonBlocking sample_board 100
              two_pin_ready)))"
proof -
  have h: "sUSValueIsValid
     (run sample_board [Edge 16 1000, Edge 0 6825]
        (startUSDistanceAsCentiMeterWithCentimeterTimeoutNonBlocking sample_board 100
           two_pin_ready))"
    by (simp add: handlePCInterrupt_def)
  have v: "getCentimeterFromUSMicroSeconds 5825 = 100"
    by (simp add: getCentimeterFromUSMicroSeconds_def signed_divide_int_def)
  show ?thesis
    using h v
      completed_measurement_stays_done
        [OF h, of sample_board "[Poll 7000, Edge 16 20000, Poll 21000]" 100]
    by (simp add: handlePCInterrupt_def start_fields poll_valid)
qed

end
